theory Spec2Isabelle
  imports Main
begin

section \<open>Errors (package models, errors file)\<close>

text \<open>
  The sentinel errors of package \<open>models\<close> that the seat, screen, booking and
  booking-service code returns, and the general errors an implementation of a repository
  interface may hand back. \<open>PanicNilPointer\<close> stands for the run-time panic of a method
  call through a missing map entry (a nil \<open>*Seat\<close>).
\<close>

datatype Error =
    ErrScreenNotFound
  | ErrSeatNotFound
  | ErrSeatNotAvailable
  | ErrSeatNotBlocked
  | ErrSeatAlreadyBooked
  | ErrShowNotFound
  | ErrShowNotBookable
  | ErrInvalidBookingData
  | ErrBookingNotFound
  | ErrBookingNotPending
  | ErrBookingExpired
  | ErrBookingAlreadyConfirmed
  | ErrBookingAlreadyCancelled
  | ErrServiceUnavailable
  | ErrInternalError
  | PanicNilPointer

section \<open>Seat\<close>

datatype SeatType = SeatTypeRegular | SeatTypePremium | SeatTypeVIP | SeatTypeRecliner

datatype SeatStatus = SeatStatusAvailable | SeatStatusBooked | SeatStatusBlocked

text \<open>
  The struct \<open>Seat\<close>. The price is a \<open>float64\<close> in the source; the model leaves the
  number type \<open>'p\<close> open and uses nothing of it but \<open>0\<close>, \<open>+\<close> and \<open>\<le>\<close>, with no
  law assumed about them, so that every statement below holds for whatever arithmetic
  the price type has. The mutex is left out: each method body runs as one step.
\<close>

record 'p Seat =
  Seat_ID :: string
  Seat_RowName :: string
  Seat_Number :: int
  Seat_Type :: SeatType
  Seat_Status :: SeatStatus
  Seat_Price :: 'p

definition NewSeat :: "string \<Rightarrow> string \<Rightarrow> int \<Rightarrow> SeatType \<Rightarrow> 'p \<Rightarrow> 'p Seat" where
  \<comment> \<open>the first argument is the identifier \<open>uuid.New().String()\<close> produced\<close>
  "NewSeat newID rowName number seatType price =
     \<lparr> Seat_ID = newID, Seat_RowName = rowName, Seat_Number = number,
       Seat_Type = seatType, Seat_Status = SeatStatusAvailable, Seat_Price = price \<rparr>"

definition IsAvailable :: "'p Seat \<Rightarrow> bool" where
  "IsAvailable s = (Seat_Status s = SeatStatusAvailable)"

text \<open>
  A method with a pointer receiver that returns \<open>error\<close> is a function to the pair of
  the error (\<open>None\<close> for \<open>nil\<close>) and the receiver after the call.
\<close>

definition Block :: "'p Seat \<Rightarrow> Error option \<times> 'p Seat" where
  "Block s =
     (if Seat_Status s \<noteq> SeatStatusAvailable then (Some ErrSeatNotAvailable, s)
      else (None, s\<lparr>Seat_Status := SeatStatusBlocked\<rparr>))"

definition Book :: "'p Seat \<Rightarrow> Error option \<times> 'p Seat" where
  "Book s =
     (if Seat_Status s \<noteq> SeatStatusBlocked then (Some ErrSeatNotBlocked, s)
      else (None, s\<lparr>Seat_Status := SeatStatusBooked\<rparr>))"

definition Unblock :: "'p Seat \<Rightarrow> Error option \<times> 'p Seat" where
  "Unblock s =
     (if Seat_Status s \<noteq> SeatStatusBlocked then (Some ErrSeatNotBlocked, s)
      else (None, s\<lparr>Seat_Status := SeatStatusAvailable\<rparr>))"

definition GetStatus :: "'p Seat \<Rightarrow> SeatStatus" where
  "GetStatus s = Seat_Status s"

definition GetPrice :: "'p Seat \<Rightarrow> 'p" where
  "GetPrice s = Seat_Price s"

text \<open>The three mutating methods of a seat, as one operation type.\<close>

datatype SeatOp = OpBlock | OpBook | OpUnblock

fun seatOp :: "SeatOp \<Rightarrow> 'p Seat \<Rightarrow> Error option \<times> 'p Seat" where
  "seatOp OpBlock s = Block s"
| "seatOp OpBook s = Book s"
| "seatOp OpUnblock s = Unblock s"

section \<open>Screen\<close>

text \<open>
  The struct \<open>Screen\<close>. \<open>Seats\<close> is a Go map from seat identifier to \<open>*Seat\<close>; the
  model stores the seat itself under its key, and a method call through
  \<open>s.Seats[id]\<close> writes the seat it leaves back under \<open>id\<close>. \<open>Capacity\<close> is a Go
  \<open>int\<close>, modelled as an unbounded integer: the statements about it below concern
  counts of one and two.
\<close>

record 'p Screen =
  Screen_ID :: string
  Screen_Name :: string
  Screen_TheatreID :: string
  Screen_Capacity :: int
  Screen_Seats :: "string \<rightharpoonup> 'p Seat"

definition NewScreen :: "string \<Rightarrow> string \<Rightarrow> string \<Rightarrow> 'p Screen" where
  "NewScreen newID name theatreID =
     \<lparr> Screen_ID = newID, Screen_Name = name, Screen_TheatreID = theatreID,
       Screen_Capacity = 0, Screen_Seats = Map.empty \<rparr>"

definition AddSeat :: "'p Seat \<Rightarrow> 'p Screen \<Rightarrow> 'p Screen" where
  "AddSeat seat s =
     s\<lparr> Screen_Seats := (Screen_Seats s)(Seat_ID seat \<mapsto> seat),
        Screen_Capacity := Screen_Capacity s + 1 \<rparr>"

definition GetSeat :: "'p Screen \<Rightarrow> string \<Rightarrow> Error + 'p Seat" where
  "GetSeat s seatID =
     (case Screen_Seats s seatID of None \<Rightarrow> Inl ErrSeatNotFound | Some seat \<Rightarrow> Inr seat)"

definition GetCapacity :: "'p Screen \<Rightarrow> int" where
  "GetCapacity s = Screen_Capacity s"

text \<open>The number of entries of the \<open>Seats\<close> map (Go's \<open>len(s.Seats)\<close>).\<close>

definition seatCount :: "'p Screen \<Rightarrow> int" where
  "seatCount s = int (card (dom (Screen_Seats s)))"

subsection \<open>BlockSeats\<close>

text \<open>The first loop of \<open>BlockSeats\<close>: every requested seat exists and is available.\<close>

fun BlockSeats_check :: "'p Screen \<Rightarrow> string list \<Rightarrow> Error option" where
  "BlockSeats_check s [] = None"
| "BlockSeats_check s (seatID # rest) =
     (case Screen_Seats s seatID of
        None \<Rightarrow> Some ErrSeatNotFound
      | Some seat \<Rightarrow>
          if \<not> IsAvailable seat then Some ErrSeatNotAvailable
          else BlockSeats_check s rest)"

text \<open>
  The rollback loop: it walks the request from index 0, stops at the first entry equal
  to the identifier whose \<open>Block\<close> failed, and calls \<open>Unblock\<close> (its error dropped) on
  the seats before it.
\<close>

fun BlockSeats_rollback :: "string \<Rightarrow> string list \<Rightarrow> 'p Screen \<Rightarrow> Error option \<times> 'p Screen" where
  "BlockSeats_rollback seatID [] s = (None, s)"
| "BlockSeats_rollback seatID (x # xs) s =
     (if x = seatID then (None, s)
      else (case Screen_Seats s x of
              None \<Rightarrow> (Some PanicNilPointer, s)
            | Some seat \<Rightarrow>
                BlockSeats_rollback seatID xs
                  (s\<lparr>Screen_Seats := (Screen_Seats s)(x \<mapsto> snd (Unblock seat))\<rparr>)))"

text \<open>
  The second loop; its first argument is the whole request, which the rollback walks.
\<close>

fun BlockSeats_block :: "string list \<Rightarrow> string list \<Rightarrow> 'p Screen \<Rightarrow> Error option \<times> 'p Screen" where
  "BlockSeats_block seatIDs [] s = (None, s)"
| "BlockSeats_block seatIDs (seatID # rest) s =
     (case Screen_Seats s seatID of
        None \<Rightarrow> (Some PanicNilPointer, s)
      | Some seat \<Rightarrow>
          (case Block seat of
             (Some err, seat') \<Rightarrow>
               (case BlockSeats_rollback seatID seatIDs
                       (s\<lparr>Screen_Seats := (Screen_Seats s)(seatID \<mapsto> seat')\<rparr>) of
                  (Some p, s') \<Rightarrow> (Some p, s')
                | (None, s') \<Rightarrow> (Some err, s'))
           | (None, seat') \<Rightarrow>
               BlockSeats_block seatIDs rest
                 (s\<lparr>Screen_Seats := (Screen_Seats s)(seatID \<mapsto> seat')\<rparr>)))"

definition BlockSeats :: "'p Screen \<Rightarrow> string list \<Rightarrow> Error option \<times> 'p Screen" where
  "BlockSeats s seatIDs =
     (case BlockSeats_check s seatIDs of
        Some err \<Rightarrow> (Some err, s)
      | None \<Rightarrow> BlockSeats_block seatIDs seatIDs s)"

text \<open>The status a screen holds for a seat identifier, \<open>None\<close> when it has no such seat.\<close>

definition seatStatus :: "'p Screen \<Rightarrow> string \<Rightarrow> SeatStatus option" where
  "seatStatus s seatID = map_option Seat_Status (Screen_Seats s seatID)"

section \<open>Booking\<close>

datatype BookingStatus =
    BookingStatusPending
  | BookingStatusConfirmed
  | BookingStatusCancelled
  | BookingStatusExpired

text \<open>
  A \<open>time.Time\<close> is an instant on a line, here an integer count of nanoseconds;
  \<open>After\<close> and \<open>Before\<close> are the strict order. Every reading of \<open>time.Now()\<close> is an
  argument of the function that makes it.
\<close>

type_synonym time = int

definition BookingTimeout :: int where
  "BookingTimeout = 15 * 60 * 1000000000"

record 'p Booking =
  Booking_ID :: string
  Booking_UserID :: string
  Booking_ShowID :: string
  Booking_SeatIDs :: "string list"
  Booking_TotalAmount :: 'p
  Booking_Status :: BookingStatus
  Booking_BookingTime :: time
  Booking_ExpiryTime :: time
  Booking_PaymentID :: string
  Booking_CreatedAt :: time
  Booking_UpdatedAt :: time

definition NewBooking ::
  "time \<Rightarrow> string \<Rightarrow> string \<Rightarrow> string \<Rightarrow> string list \<Rightarrow> ('p::{zero,ord}) \<Rightarrow> Error + 'p Booking" where
  \<comment> \<open>\<open>now\<close> is the reading of the clock, \<open>newID\<close> the identifier \<open>uuid.New()\<close> produced\<close>
  "NewBooking now newID userID showID seatIDs totalAmount =
     (if userID = [] \<or> showID = [] \<or> length seatIDs = 0 \<or> totalAmount \<le> 0
      then Inl ErrInvalidBookingData
      else Inr \<lparr> Booking_ID = newID, Booking_UserID = userID, Booking_ShowID = showID,
                 Booking_SeatIDs = seatIDs, Booking_TotalAmount = totalAmount,
                 Booking_Status = BookingStatusPending, Booking_BookingTime = now,
                 Booking_ExpiryTime = now + BookingTimeout, Booking_PaymentID = [],
                 Booking_CreatedAt = now, Booking_UpdatedAt = now \<rparr>)"

definition IsExpired :: "time \<Rightarrow> 'p Booking \<Rightarrow> bool" where
  "IsExpired now b = (Booking_ExpiryTime b < now \<and> Booking_Status b = BookingStatusPending)"

text \<open>
  \<open>Confirm\<close> reads the clock twice: \<open>now\<close> for the expiry check, \<open>stamp\<close> for
  \<open>UpdatedAt\<close>.
\<close>

definition Confirm :: "time \<Rightarrow> time \<Rightarrow> string \<Rightarrow> 'p Booking \<Rightarrow> Error option \<times> 'p Booking" where
  "Confirm now stamp paymentID b =
     (if Booking_Status b \<noteq> BookingStatusPending then (Some ErrBookingNotPending, b)
      else if Booking_ExpiryTime b < now
      then (Some ErrBookingExpired, b\<lparr>Booking_Status := BookingStatusExpired\<rparr>)
      else (None, b\<lparr> Booking_Status := BookingStatusConfirmed,
                      Booking_PaymentID := paymentID,
                      Booking_UpdatedAt := stamp \<rparr>))"

definition Cancel :: "time \<Rightarrow> 'p Booking \<Rightarrow> Error option \<times> 'p Booking" where
  "Cancel now b =
     (if Booking_Status b = BookingStatusConfirmed then (Some ErrBookingAlreadyConfirmed, b)
      else if Booking_Status b = BookingStatusCancelled then (Some ErrBookingAlreadyCancelled, b)
      else (None, b\<lparr>Booking_Status := BookingStatusCancelled, Booking_UpdatedAt := now\<rparr>))"

definition Expire :: "time \<Rightarrow> 'p Booking \<Rightarrow> Error option \<times> 'p Booking" where
  "Expire now b =
     (if Booking_Status b \<noteq> BookingStatusPending then (Some ErrBookingNotPending, b)
      else (None, b\<lparr>Booking_Status := BookingStatusExpired, Booking_UpdatedAt := now\<rparr>))"

definition CanBeCancelled :: "'p Booking \<Rightarrow> bool" where
  "CanBeCancelled b =
     (Booking_Status b = BookingStatusPending \<or> Booking_Status b = BookingStatusConfirmed)"

text \<open>The three mutating methods of a booking, each with the clock readings it makes.\<close>

datatype BookingOp = OpConfirm time time string | OpCancel time | OpExpire time

fun bookingOp :: "BookingOp \<Rightarrow> 'p Booking \<Rightarrow> Error option \<times> 'p Booking" where
  "bookingOp (OpConfirm now stamp paymentID) b = Confirm now stamp paymentID b"
| "bookingOp (OpCancel now) b = Cancel now b"
| "bookingOp (OpExpire now) b = Expire now b"

text \<open>A run of such calls on one booking, whatever each of them returns.\<close>

fun bookingOps :: "BookingOp list \<Rightarrow> 'p Booking \<Rightarrow> 'p Booking" where
  "bookingOps [] b = b"
| "bookingOps (op # ops) b = bookingOps ops (snd (bookingOp op b))"

definition terminal :: "BookingStatus \<Rightarrow> bool" where
  "terminal st = (st = BookingStatusConfirmed \<or> st = BookingStatusCancelled \<or> st = BookingStatusExpired)"

section \<open>Show\<close>

text \<open>
  The struct \<open>Show\<close>, without the fields no method modelled here reads
  (\<open>BasePrice\<close>, \<open>CreatedAt\<close>, \<open>UpdatedAt\<close>).
\<close>

record Show =
  Show_ID :: string
  Show_MovieID :: string
  Show_TheatreID :: string
  Show_ScreenID :: string
  Show_StartTime :: time
  Show_EndTime :: time

definition CanBeBooked :: "time \<Rightarrow> Show \<Rightarrow> bool" where
  \<comment> \<open>booking is open until 30 minutes after the start\<close>
  "CanBeBooked now sh = (now < Show_StartTime sh + 30 * 60 * 1000000000)"

section \<open>Repositories\<close>

text \<open>
  The in-memory show and screen repositories are Go maps from identifier to pointer. The
  model keeps the object under its key; a mutation through a pointer that \<open>GetByID\<close>
  returned is written back under the key it was fetched by.
\<close>

definition MemoryShowRepository_GetByID :: "(string \<rightharpoonup> Show) \<Rightarrow> string \<Rightarrow> Error + Show" where
  "MemoryShowRepository_GetByID shows ident =
     (case shows ident of None \<Rightarrow> Inl ErrShowNotFound | Some sh \<Rightarrow> Inr sh)"

definition MemoryScreenRepository_GetByID ::
  "(string \<rightharpoonup> 'p Screen) \<Rightarrow> string \<Rightarrow> Error + 'p Screen" where
  "MemoryScreenRepository_GetByID screens ident =
     (case screens ident of None \<Rightarrow> Inl ErrScreenNotFound | Some screen \<Rightarrow> Inr screen)"

definition MemoryScreenRepository_Update ::
  "'p Screen \<Rightarrow> (string \<rightharpoonup> 'p Screen) \<Rightarrow> Error option \<times> (string \<rightharpoonup> 'p Screen)" where
  "MemoryScreenRepository_Update screen screens =
     (if screens (Screen_ID screen) = None then (Some ErrScreenNotFound, screens)
      else (None, screens(Screen_ID screen \<mapsto> screen)))"

text \<open>
  The interface \<open>BookingRepository\<close>: three methods over a store of type \<open>'r\<close> that the
  service cannot look into. The booking service is written against this interface, so
  its model takes an implementation as an argument.
\<close>

record ('p, 'r) BookingRepository =
  BookingRepository_Create :: "'p Booking \<Rightarrow> 'r \<Rightarrow> Error option \<times> 'r"
  BookingRepository_GetByID :: "string \<Rightarrow> 'r \<Rightarrow> Error + 'p Booking"
  BookingRepository_Update :: "'p Booking \<Rightarrow> 'r \<Rightarrow> Error option \<times> 'r"

text \<open>The implementation the repository ships: a map from identifier to booking.\<close>

definition MemoryBookingRepository :: "('p, string \<rightharpoonup> 'p Booking) BookingRepository" where
  "MemoryBookingRepository =
     \<lparr> BookingRepository_Create = (\<lambda>booking bookings. (None, bookings(Booking_ID booking \<mapsto> booking))),
       BookingRepository_GetByID = (\<lambda>ident bookings.
          case bookings ident of None \<Rightarrow> Inl ErrBookingNotFound | Some booking \<Rightarrow> Inr booking),
       BookingRepository_Update = (\<lambda>booking bookings.
          if bookings (Booking_ID booking) = None then (Some ErrBookingNotFound, bookings)
          else (None, bookings(Booking_ID booking \<mapsto> booking))) \<rparr>"

text \<open>
  An implementation of the interface whose writes fail: it reads like the in-memory
  store and answers every \<open>Create\<close> and \<open>Update\<close> with \<open>ErrServiceUnavailable\<close>, one of
  the general errors of package \<open>models\<close>. It is an input of the service, not code of
  it, and stands for a booking store with a persistence failure injected; it is used at
  concrete instances only, and no general statement depends on it.
\<close>

definition FailingBookingRepository :: "('p, string \<rightharpoonup> 'p Booking) BookingRepository" where
  "FailingBookingRepository =
     \<lparr> BookingRepository_Create = (\<lambda>booking bookings. (Some ErrServiceUnavailable, bookings)),
       BookingRepository_GetByID = BookingRepository_GetByID MemoryBookingRepository,
       BookingRepository_Update = (\<lambda>booking bookings. (Some ErrServiceUnavailable, bookings)) \<rparr>"

section \<open>Booking service\<close>

text \<open>
  The struct \<open>BookingServiceImpl\<close>, reduced to what \<open>CreateBooking\<close> and
  \<open>ConfirmBooking\<close> touch: the booking store, the show and screen repositories, and the
  notification service (\<open>None\<close> for a nil service, otherwise the confirmations sent so
  far, as pairs of user and booking identifier). The warnings the service prints are not
  modelled.
\<close>

record ('p, 'r) BookingServiceImpl =
  bookingRepo :: 'r
  showRepo :: "string \<rightharpoonup> Show"
  screenRepo :: "string \<rightharpoonup> 'p Screen"
  notificationSvc :: "(string \<times> string) list option"

text \<open>The screen a pointer from the screen repository refers to, after a mutation.\<close>

definition writeScreen ::
  "string \<Rightarrow> 'p Screen \<Rightarrow> ('p, 'r) BookingServiceImpl \<Rightarrow> ('p, 'r) BookingServiceImpl" where
  "writeScreen key screen bs = bs\<lparr>screenRepo := (screenRepo bs)(key \<mapsto> screen)\<rparr>"

text \<open>The pricing loop of \<open>CreateBooking\<close>, with the running total.\<close>

fun CreateBooking_total :: "'p Screen \<Rightarrow> string list \<Rightarrow> ('p::plus) \<Rightarrow> Error + 'p" where
  "CreateBooking_total screen [] totalAmount = Inr totalAmount"
| "CreateBooking_total screen (seatID # rest) totalAmount =
     (case GetSeat screen seatID of
        Inl err \<Rightarrow> Inl err
      | Inr seat \<Rightarrow>
          if \<not> IsAvailable seat then Inl ErrSeatNotAvailable
          else CreateBooking_total screen rest (totalAmount + GetPrice seat))"

fun rollbackSeatBlocking :: "'p Screen \<Rightarrow> string list \<Rightarrow> 'p Screen" where
  "rollbackSeatBlocking screen [] = screen"
| "rollbackSeatBlocking screen (seatID # rest) =
     (case GetSeat screen seatID of
        Inl err \<Rightarrow> rollbackSeatBlocking screen rest
      | Inr seat \<Rightarrow>
          rollbackSeatBlocking
            (screen\<lparr>Screen_Seats := (Screen_Seats screen)(seatID \<mapsto> snd (Unblock seat))\<rparr>) rest)"

text \<open>
  \<open>CreateBooking\<close>. \<open>now\<close> is the clock reading of \<open>CanBeBooked\<close>, \<open>now2\<close> the one of
  \<open>NewBooking\<close>, \<open>newID\<close> the identifier the new booking gets. The result is the
  returned pair (an error, or the booking) and the service after the call.
\<close>

definition CreateBooking ::
  "('p::{zero,plus,ord}, 'r) BookingRepository \<Rightarrow> time \<Rightarrow> time \<Rightarrow> string \<Rightarrow>
   string \<Rightarrow> string \<Rightarrow> string list \<Rightarrow> ('p, 'r) BookingServiceImpl \<Rightarrow>
   (Error + 'p Booking) \<times> ('p, 'r) BookingServiceImpl" where
  "CreateBooking repo now now2 newID userID showID seatIDs bs =
     (case MemoryShowRepository_GetByID (showRepo bs) showID of
        Inl err \<Rightarrow> (Inl err, bs)
      | Inr sh \<Rightarrow>
          if \<not> CanBeBooked now sh then (Inl ErrShowNotBookable, bs)
          else
            (case MemoryScreenRepository_GetByID (screenRepo bs) (Show_ScreenID sh) of
               Inl err \<Rightarrow> (Inl err, bs)
             | Inr screen \<Rightarrow>
                 (case CreateBooking_total screen seatIDs 0 of
                    Inl err \<Rightarrow> (Inl err, bs)
                  | Inr totalAmount \<Rightarrow>
                      (case BlockSeats screen seatIDs of
                         (Some err, screen') \<Rightarrow>
                           (Inl err, writeScreen (Show_ScreenID sh) screen' bs)
                       | (None, screen') \<Rightarrow>
                           (case NewBooking now2 newID userID showID seatIDs totalAmount of
                              Inl err \<Rightarrow>
                                (Inl err,
                                 writeScreen (Show_ScreenID sh)
                                   (rollbackSeatBlocking screen' seatIDs) bs)
                            | Inr booking \<Rightarrow>
                                (case BookingRepository_Create repo booking (bookingRepo bs) of
                                   (Some err, r') \<Rightarrow>
                                     (Inl err,
                                      writeScreen (Show_ScreenID sh)
                                        (rollbackSeatBlocking screen' seatIDs)
                                        (bs\<lparr>bookingRepo := r'\<rparr>))
                                 | (None, r') \<Rightarrow>
                                     (let bs1 = writeScreen (Show_ScreenID sh) screen'
                                                  (bs\<lparr>bookingRepo := r'\<rparr>)
                                      in (Inr booking,
                                          bs1\<lparr>screenRepo :=
                                            snd (MemoryScreenRepository_Update screen'
                                                   (screenRepo bs1))\<rparr>))))))))"

text \<open>The seat loop of \<open>ConfirmBooking\<close>: a missing seat and a failed \<open>Book\<close> are passed over.\<close>

fun ConfirmBooking_book :: "'p Screen \<Rightarrow> string list \<Rightarrow> 'p Screen" where
  "ConfirmBooking_book screen [] = screen"
| "ConfirmBooking_book screen (seatID # rest) =
     (case GetSeat screen seatID of
        Inl err \<Rightarrow> ConfirmBooking_book screen rest
      | Inr seat \<Rightarrow>
          ConfirmBooking_book
            (screen\<lparr>Screen_Seats := (Screen_Seats screen)(seatID \<mapsto> snd (Book seat))\<rparr>) rest)"

definition SendBookingConfirmation ::
  "string \<Rightarrow> string \<Rightarrow> (string \<times> string) list option \<Rightarrow> (string \<times> string) list option" where
  "SendBookingConfirmation userID bookingID svc =
     (case svc of None \<Rightarrow> None | Some sent \<Rightarrow> Some (sent @ [(userID, bookingID)]))"

text \<open>
  \<open>ConfirmBooking\<close>. \<open>now\<close> and \<open>stamp\<close> are the two clock readings of \<open>Confirm\<close>. The
  booking store is opaque, so the booking object that \<open>GetByID\<close> handed out is threaded
  through the call, and the result carries it as it stands when the call returns
  (\<open>None\<close> when the lookup failed): the returned error, that booking, and the service.
  A store that hands out pointers to its own entries, as the in-memory one does, shares
  that object with the caller: its entry for the booking is the object returned here.
\<close>

definition ConfirmBooking ::
  "('p, 'r) BookingRepository \<Rightarrow> time \<Rightarrow> time \<Rightarrow> string \<Rightarrow> string \<Rightarrow>
   ('p, 'r) BookingServiceImpl \<Rightarrow>
   Error option \<times> 'p Booking option \<times> ('p, 'r) BookingServiceImpl" where
  "ConfirmBooking repo now stamp bookingID paymentID bs =
     (case BookingRepository_GetByID repo bookingID (bookingRepo bs) of
        Inl err \<Rightarrow> (Some err, None, bs)
      | Inr booking0 \<Rightarrow>
          (case Confirm now stamp paymentID booking0 of
             (Some err, booking) \<Rightarrow> (Some err, Some booking, bs)
           | (None, booking) \<Rightarrow>
               (case BookingRepository_Update repo booking (bookingRepo bs) of
                  (Some err, r') \<Rightarrow> (Some err, Some booking, bs\<lparr>bookingRepo := r'\<rparr>)
                | (None, r') \<Rightarrow>
                    (let bs1 = bs\<lparr>bookingRepo := r'\<rparr> in
                     case MemoryShowRepository_GetByID (showRepo bs1) (Booking_ShowID booking) of
                       Inl err \<Rightarrow> (Some err, Some booking, bs1)
                     | Inr sh \<Rightarrow>
                         (case MemoryScreenRepository_GetByID (screenRepo bs1) (Show_ScreenID sh) of
                            Inl err \<Rightarrow> (Some err, Some booking, bs1)
                          | Inr screen \<Rightarrow>
                              (let screen' = ConfirmBooking_book screen (Booking_SeatIDs booking);
                                   bs2 = writeScreen (Show_ScreenID sh) screen' bs1;
                                   bs3 = bs2\<lparr>screenRepo :=
                                           snd (MemoryScreenRepository_Update screen'
                                                  (screenRepo bs2))\<rparr>
                               in (None, Some booking,
                                   bs3\<lparr>notificationSvc :=
                                         SendBookingConfirmation (Booking_UserID booking)
                                           (Booking_ID booking) (notificationSvc bs3)\<rparr>)))))))"

section \<open>Notions the properties are stated with\<close>

text \<open>
  A requested seat fails the first-pass check of \<open>BlockSeats\<close> when the screen has no
  seat under the identifier, or has one that is not available.
\<close>

definition failsCheck :: "'p Screen \<Rightarrow> string \<Rightarrow> bool" where
  "failsCheck s seatID =
     (case Screen_Seats s seatID of None \<Rightarrow> True | Some seat \<Rightarrow> \<not> IsAvailable seat)"

text \<open>A seat map after \<open>f\<close> has been applied to the seats under the given identifiers.\<close>

definition onSeats ::
  "('p Seat \<Rightarrow> 'p Seat) \<Rightarrow> string list \<Rightarrow> (string \<rightharpoonup> 'p Seat) \<Rightarrow> (string \<rightharpoonup> 'p Seat)" where
  "onSeats f seatIDs m = (\<lambda>k. if k \<in> set seatIDs then map_option f (m k) else m k)"

definition blocked :: "'p Seat \<Rightarrow> 'p Seat" where
  "blocked seat = seat\<lparr>Seat_Status := SeatStatusBlocked\<rparr>"

text \<open>
  The status of a seat as the service sees it: through the screen repository, under a
  screen identifier and a seat identifier.
\<close>

definition serviceSeatStatus ::
  "('p, 'r) BookingServiceImpl \<Rightarrow> string \<Rightarrow> string \<Rightarrow> SeatStatus option" where
  "serviceSeatStatus bs screenID seatID =
     (case screenRepo bs screenID of None \<Rightarrow> None | Some screen \<Rightarrow> seatStatus screen seatID)"

text \<open>
  The spec's total of a booking: the prices of the seats the identifiers name, in request
  order, summed from \<open>0\<close>; \<open>None\<close> when the screen lacks one of the seats.
\<close>

fun seatPrices :: "'p Screen \<Rightarrow> string list \<Rightarrow> 'p list option" where
  "seatPrices s [] = Some []"
| "seatPrices s (seatID # rest) =
     (case Screen_Seats s seatID of
        None \<Rightarrow> None
      | Some seat \<Rightarrow> map_option ((#) (Seat_Price seat)) (seatPrices s rest))"

definition spec_priceSum :: "('p::{zero,plus}) Screen \<Rightarrow> string list \<Rightarrow> 'p option" where
  "spec_priceSum s seatIDs = map_option (foldl (+) 0) (seatPrices s seatIDs)"

section \<open>A small theatre\<close>

text \<open>
  One screen with the seats A1 (price 100) and A2 (price 150), one show on it that
  starts at instant 0, and a service over them with an empty booking store.
\<close>

definition seatA1 :: "int Seat" where
  "seatA1 = NewSeat ''A1'' ''A'' 1 SeatTypeRegular 100"

definition seatA2 :: "int Seat" where
  "seatA2 = NewSeat ''A2'' ''A'' 2 SeatTypePremium 150"

definition screen1 :: "int Screen" where
  "screen1 = AddSeat seatA2 (AddSeat seatA1 (NewScreen ''S1'' ''Screen 1'' ''T1''))"

definition show1 :: Show where
  "show1 = \<lparr> Show_ID = ''SH1'', Show_MovieID = ''M1'', Show_TheatreID = ''T1'',
             Show_ScreenID = ''S1'', Show_StartTime = 0, Show_EndTime = 7200000000000 \<rparr>"

definition service1 :: "(int, string \<rightharpoonup> int Booking) BookingServiceImpl" where
  "service1 = \<lparr> bookingRepo = Map.empty, showRepo = [''SH1'' \<mapsto> show1],
                screenRepo = [''S1'' \<mapsto> screen1], notificationSvc = Some [] \<rparr>"

text \<open>A pending booking of user U1 for the show, made at instant 0.\<close>

definition booking1 :: "int Booking" where
  "booking1 = \<lparr> Booking_ID = ''B1'', Booking_UserID = ''U1'', Booking_ShowID = ''SH1'',
                Booking_SeatIDs = [''A1'', ''A2''], Booking_TotalAmount = 250,
                Booking_Status = BookingStatusPending, Booking_BookingTime = 0,
                Booking_ExpiryTime = BookingTimeout, Booking_PaymentID = [],
                Booking_CreatedAt = 0, Booking_UpdatedAt = 0 \<rparr>"

text \<open>
  The same theatre after A1 alone has been held, with \<open>booking1\<close> in the booking store:
  the booking names A1 and A2, and A2 was never blocked.
\<close>

definition screen2 :: "int Screen" where
  "screen2 = snd (BlockSeats screen1 [''A1''])"

definition service2 :: "(int, string \<rightharpoonup> int Booking) BookingServiceImpl" where
  "service2 = service1\<lparr> bookingRepo := [''B1'' \<mapsto> booking1],
                         screenRepo := [''S1'' \<mapsto> screen2] \<rparr>"

section \<open>Seat and booking state machines\<close>

lemma screen1_seats: "Screen_Seats screen1 = [''A1'' \<mapsto> seatA1, ''A2'' \<mapsto> seatA2]"
  by (simp add: screen1_def AddSeat_def NewScreen_def seatA1_def seatA2_def NewSeat_def)

lemma screen2_seats:
  "Screen_Seats screen2 = [''A1'' \<mapsto> seatA1\<lparr>Seat_Status := SeatStatusBlocked\<rparr>, ''A2'' \<mapsto> seatA2]"
  by (simp add: screen2_def BlockSeats_def screen1_seats IsAvailable_def Block_def
        seatA1_def seatA2_def NewSeat_def fun_upd_twist)

text \<open>
  C7, seat lifecycle ordering. Whichever of \<open>Block\<close>, \<open>Book\<close> and \<open>Unblock\<close> is called,
  the status of the seat either stays or moves along one of three edges: available to
  blocked by \<open>Block\<close>, blocked to booked by \<open>Book\<close>, blocked to available by
  \<open>Unblock\<close>. \<open>Book\<close> on an available seat fails with \<open>ErrSeatNotBlocked\<close> and leaves
  the seat as it is, no call takes an available seat to booked, and no call takes a
  booked seat anywhere else.
\<close>

theorem seat_lifecycle:
  "(Seat_Status (snd (seatOp op s)) = Seat_Status s
     \<or> (op, Seat_Status s, Seat_Status (snd (seatOp op s)))
          \<in> {(OpBlock, SeatStatusAvailable, SeatStatusBlocked),
              (OpBook, SeatStatusBlocked, SeatStatusBooked),
              (OpUnblock, SeatStatusBlocked, SeatStatusAvailable)})
   \<and> Book (s\<lparr>Seat_Status := SeatStatusAvailable\<rparr>)
        = (Some ErrSeatNotBlocked, s\<lparr>Seat_Status := SeatStatusAvailable\<rparr>)
   \<and> Seat_Status (snd (seatOp op (s\<lparr>Seat_Status := SeatStatusAvailable\<rparr>))) \<noteq> SeatStatusBooked
   \<and> Seat_Status (snd (seatOp op (s\<lparr>Seat_Status := SeatStatusBooked\<rparr>))) = SeatStatusBooked"
  by (cases op) (simp_all add: Block_def Book_def Unblock_def)

theorem seat_lifecycle_witness:
  "Seat_Status seatA1 = SeatStatusAvailable
   \<and> Book seatA1 = (Some ErrSeatNotBlocked, seatA1)
   \<and> Seat_Status (snd (seatOp OpBlock seatA1)) = SeatStatusBlocked
   \<and> Seat_Status (snd (seatOp OpBook (snd (seatOp OpBlock seatA1)))) = SeatStatusBooked
   \<and> Seat_Status (snd (seatOp OpUnblock (snd (seatOp OpBlock seatA1)))) = SeatStatusAvailable
   \<and> Seat_Status (snd (seatOp OpUnblock (seatA1\<lparr>Seat_Status := SeatStatusBooked\<rparr>)))
        = SeatStatusBooked"
  using seat_lifecycle [of OpBook seatA1] seat_lifecycle [of OpUnblock seatA1]
  by (simp add: seatA1_def NewSeat_def Block_def Book_def Unblock_def)

text \<open>
  C3, expiry precedence. A pending booking whose deadline lies before the clock reading
  of \<open>Confirm\<close> is not confirmed, whatever the payment identifier: the call returns
  \<open>ErrBookingExpired\<close> and leaves the booking as it was but for its status, which is
  \<open>Expired\<close>.
\<close>

theorem Confirm_expiry_precedence:
  assumes "Booking_Status b = BookingStatusPending" and "Booking_ExpiryTime b < now"
  shows "Confirm now stamp paymentID b
           = (Some ErrBookingExpired, b\<lparr>Booking_Status := BookingStatusExpired\<rparr>)"
  using assms by (simp add: Confirm_def)

theorem Confirm_expiry_precedence_witness:
  "Booking_Status booking1 = BookingStatusPending
   \<and> Booking_ExpiryTime booking1 < BookingTimeout + 1
   \<and> Confirm (BookingTimeout + 1) (BookingTimeout + 2) ''PAY1'' booking1
       = (Some ErrBookingExpired, booking1\<lparr>Booking_Status := BookingStatusExpired\<rparr>)"
  using Confirm_expiry_precedence [of booking1 "BookingTimeout + 1" "BookingTimeout + 2" "''PAY1''"]
  by (simp add: booking1_def)

text \<open>
  C10. A confirmed booking answers \<open>CanBeCancelled\<close> with true, and \<open>Cancel\<close> on it
  fails with \<open>ErrBookingAlreadyConfirmed\<close> and changes nothing.
\<close>

theorem CanBeCancelled_confirmed_but_Cancel_fails:
  assumes "Booking_Status b = BookingStatusConfirmed"
  shows "CanBeCancelled b \<and> Cancel now b = (Some ErrBookingAlreadyConfirmed, b)"
  using assms by (simp add: CanBeCancelled_def Cancel_def)

theorem CanBeCancelled_confirmed_but_Cancel_fails_witness:
  "Booking_Status (booking1\<lparr>Booking_Status := BookingStatusConfirmed\<rparr>) = BookingStatusConfirmed
   \<and> CanBeCancelled (booking1\<lparr>Booking_Status := BookingStatusConfirmed\<rparr>)
   \<and> Cancel 5 (booking1\<lparr>Booking_Status := BookingStatusConfirmed\<rparr>)
       = (Some ErrBookingAlreadyConfirmed, booking1\<lparr>Booking_Status := BookingStatusConfirmed\<rparr>)"
  using CanBeCancelled_confirmed_but_Cancel_fails
          [of "booking1\<lparr>Booking_Status := BookingStatusConfirmed\<rparr>" 5]
  by simp

text \<open>
  On a booking in a terminal status \<open>Confirm\<close> and \<open>Expire\<close> fail and change nothing,
  and so does \<open>Cancel\<close> on a confirmed or cancelled one.
\<close>

lemma terminal_Confirm_Expire:
  assumes "terminal (Booking_Status b)"
  shows "Confirm now stamp paymentID b = (Some ErrBookingNotPending, b)"
    and "Expire now b = (Some ErrBookingNotPending, b)"
  using assms by (auto simp: terminal_def Confirm_def Expire_def)

lemma Cancel_confirmed_or_cancelled:
  assumes "Booking_Status b = BookingStatusConfirmed \<or> Booking_Status b = BookingStatusCancelled"
  shows "fst (Cancel now b) \<noteq> None \<and> snd (Cancel now b) = b"
  using assms by (auto simp: Cancel_def)

text \<open>
  C2, at the input where the code leaves the claim: \<open>Expired\<close> is a terminal status, and
  \<open>Cancel\<close> on an expired booking returns no error and moves it to \<open>Cancelled\<close>.
\<close>

theorem Cancel_expired_succeeds:
  "terminal BookingStatusExpired \<and>
   Cancel now (b\<lparr>Booking_Status := BookingStatusExpired\<rparr>)
     = (None, b\<lparr>Booking_Status := BookingStatusCancelled, Booking_UpdatedAt := now\<rparr>)"
  by (simp add: Cancel_def terminal_def)

section \<open>Capacity of a screen\<close>

text \<open>\<open>AddSeat\<close> keeps the capacity equal to the number of seats when the identifier is new.\<close>

lemma AddSeat_fresh_capacity:
  assumes "finite (dom (Screen_Seats s))" and "Seat_ID seat \<notin> dom (Screen_Seats s)"
    and "GetCapacity s = seatCount s"
  shows "GetCapacity (AddSeat seat s) = seatCount (AddSeat seat s)"
  using assms by (simp add: GetCapacity_def seatCount_def AddSeat_def)

text \<open>
  C9, at the input where the code leaves the claim: adding one seat twice to a new screen
  counts it twice in \<open>Capacity\<close>, while the seat map holds one entry.
\<close>

theorem AddSeat_twice_capacity:
  "GetCapacity (AddSeat seat (AddSeat seat (NewScreen newID name theatreID))) = 2
   \<and> seatCount (AddSeat seat (AddSeat seat (NewScreen newID name theatreID))) = 1"
  by (simp add: GetCapacity_def seatCount_def AddSeat_def NewScreen_def)

section \<open>BlockSeats\<close>

lemma BlockSeats_check_None:
  "BlockSeats_check s seatIDs = None \<longleftrightarrow> (\<forall>x \<in> set seatIDs. \<not> failsCheck s x)"
  by (induction seatIDs) (auto simp: failsCheck_def split: option.splits)

lemma BlockSeats_check_first:
  "find (failsCheck s) seatIDs = Some bad \<Longrightarrow>
   BlockSeats_check s seatIDs
     = Some (if Screen_Seats s bad = None then ErrSeatNotFound else ErrSeatNotAvailable)"
  by (induction seatIDs) (auto simp: failsCheck_def split: option.splits if_splits)

lemma find_failsCheck:
  "\<exists>x \<in> set seatIDs. failsCheck s x \<Longrightarrow> \<exists>bad. find (failsCheck s) seatIDs = Some bad"
  by (induction seatIDs) auto

text \<open>
  C5. When some requested seat fails the first-pass check, \<open>BlockSeats\<close> returns the
  error of the first such seat in request order, \<open>ErrSeatNotFound\<close> when the screen has
  no seat under it and \<open>ErrSeatNotAvailable\<close> otherwise, and the screen is as before.
\<close>

theorem BlockSeats_validation_error:
  assumes "\<exists>x \<in> set seatIDs. failsCheck s x"
  shows "\<exists>bad. find (failsCheck s) seatIDs = Some bad \<and>
           BlockSeats s seatIDs
             = (Some (if Screen_Seats s bad = None then ErrSeatNotFound else ErrSeatNotAvailable), s)"
proof -
  from assms obtain bad where b: "find (failsCheck s) seatIDs = Some bad"
    using find_failsCheck by blast
  then show ?thesis
    by (simp add: BlockSeats_def BlockSeats_check_first)
qed

theorem BlockSeats_validation_error_witness:
  "(\<exists>x \<in> set [''A1'', ''Z9'', ''A2'']. failsCheck screen1 x)
   \<and> find (failsCheck screen1) [''A1'', ''Z9'', ''A2''] = Some ''Z9''
   \<and> BlockSeats screen1 [''A1'', ''Z9'', ''A2''] = (Some ErrSeatNotFound, screen1)"
proof -
  have h: "\<exists>x \<in> set [''A1'', ''Z9'', ''A2'']. failsCheck screen1 x"
    by (simp add: failsCheck_def screen1_seats)
  have f: "find (failsCheck screen1) [''A1'', ''Z9'', ''A2''] = Some ''Z9''"
    by (simp add: failsCheck_def screen1_seats IsAvailable_def seatA1_def NewSeat_def)
  from BlockSeats_validation_error [OF h] f h show ?thesis
    by (simp add: screen1_seats)
qed

subsection \<open>The second loop\<close>

lemma onSeats_Nil: "onSeats f [] m = m"
  by (simp add: onSeats_def)

lemma onSeats_Cons_None: "m x = None \<Longrightarrow> onSeats f (x # xs) m = onSeats f xs m"
  by (auto simp: onSeats_def fun_eq_iff)

lemma onSeats_Cons_Some:
  "m x = Some seat \<Longrightarrow> f (f seat) = f seat \<Longrightarrow>
   onSeats f xs (m(x \<mapsto> f seat)) = onSeats f (x # xs) m"
  by (auto simp: onSeats_def fun_eq_iff)

lemma Screen_Seats_upd: "Screen_Seats (s\<lparr>Screen_Seats := A\<rparr>) = A"
  by simp

lemma Screen_Seats_upd_upd: "s\<lparr>Screen_Seats := A\<rparr>\<lparr>Screen_Seats := B\<rparr> = s\<lparr>Screen_Seats := B\<rparr>"
  by simp

lemma Unblock_idem: "snd (Unblock (snd (Unblock seat))) = snd (Unblock seat)"
  by (simp add: Unblock_def)

lemma Book_idem: "snd (Book (snd (Book seat))) = snd (Book seat)"
  by (simp add: Book_def)

lemma rollbackSeatBlocking_onSeats:
  "rollbackSeatBlocking s seatIDs
     = s\<lparr>Screen_Seats := onSeats (\<lambda>seat. snd (Unblock seat)) seatIDs (Screen_Seats s)\<rparr>"
proof (induction seatIDs arbitrary: s)
  case Nil
  show ?case by (simp add: onSeats_Nil)
next
  case (Cons x xs)
  show ?case
  proof (cases "Screen_Seats s x")
    case None
    then show ?thesis by (simp add: GetSeat_def Cons.IH onSeats_Cons_None)
  next
    case (Some seat)
    have eq: "onSeats (\<lambda>seat. snd (Unblock seat)) xs ((Screen_Seats s)(x \<mapsto> snd (Unblock seat)))
            = onSeats (\<lambda>seat. snd (Unblock seat)) (x # xs) (Screen_Seats s)"
      using Some by (rule onSeats_Cons_Some) (rule Unblock_idem)
    have "rollbackSeatBlocking s (x # xs)
            = rollbackSeatBlocking (s\<lparr>Screen_Seats := (Screen_Seats s)(x \<mapsto> snd (Unblock seat))\<rparr>) xs"
      using Some by (simp add: GetSeat_def)
    also have "\<dots> = s\<lparr>Screen_Seats :=
                 onSeats (\<lambda>seat. snd (Unblock seat)) xs ((Screen_Seats s)(x \<mapsto> snd (Unblock seat)))\<rparr>"
      by (simp only: Cons.IH Screen_Seats_upd Screen_Seats_upd_upd)
    finally show ?thesis
      by (simp only: eq)
  qed
qed

lemma ConfirmBooking_book_onSeats:
  "ConfirmBooking_book s seatIDs
     = s\<lparr>Screen_Seats := onSeats (\<lambda>seat. snd (Book seat)) seatIDs (Screen_Seats s)\<rparr>"
proof (induction seatIDs arbitrary: s)
  case Nil
  show ?case by (simp add: onSeats_Nil)
next
  case (Cons x xs)
  show ?case
  proof (cases "Screen_Seats s x")
    case None
    then show ?thesis by (simp add: GetSeat_def Cons.IH onSeats_Cons_None)
  next
    case (Some seat)
    have eq: "onSeats (\<lambda>seat. snd (Book seat)) xs ((Screen_Seats s)(x \<mapsto> snd (Book seat)))
            = onSeats (\<lambda>seat. snd (Book seat)) (x # xs) (Screen_Seats s)"
      using Some by (rule onSeats_Cons_Some) (rule Book_idem)
    have "ConfirmBooking_book s (x # xs)
            = ConfirmBooking_book (s\<lparr>Screen_Seats := (Screen_Seats s)(x \<mapsto> snd (Book seat))\<rparr>) xs"
      using Some by (simp add: GetSeat_def)
    also have "\<dots> = s\<lparr>Screen_Seats :=
                 onSeats (\<lambda>seat. snd (Book seat)) xs ((Screen_Seats s)(x \<mapsto> snd (Book seat)))\<rparr>"
      by (simp only: Cons.IH Screen_Seats_upd Screen_Seats_upd_upd)
    finally show ?thesis
      by (simp only: eq)
  qed
qed

lemma blocked_idem: "blocked (blocked seat) = blocked seat"
  by (simp add: blocked_def)

lemma BlockSeats_block_success:
  "BlockSeats_block allIDs seatIDs s = (None, s') \<Longrightarrow>
   s' = s\<lparr>Screen_Seats := onSeats blocked seatIDs (Screen_Seats s)\<rparr>"
proof (induction seatIDs arbitrary: s)
  case Nil
  then show ?case by (simp add: onSeats_Nil)
next
  case (Cons x xs)
  from Cons.prems obtain seat where seat: "Screen_Seats s x = Some seat"
    by (cases "Screen_Seats s x") auto
  from Cons.prems seat have av: "Seat_Status seat = SeatStatusAvailable"
    by (auto simp: Block_def split: if_splits prod.splits option.splits)
  with Cons.prems seat have
    "BlockSeats_block allIDs xs (s\<lparr>Screen_Seats := (Screen_Seats s)(x \<mapsto> blocked seat)\<rparr>) = (None, s')"
    by (simp add: Block_def blocked_def)
  then have "s' = s\<lparr>Screen_Seats := (Screen_Seats s)(x \<mapsto> blocked seat)\<rparr>
                   \<lparr>Screen_Seats := onSeats blocked xs ((Screen_Seats s)(x \<mapsto> blocked seat))\<rparr>"
    using Cons.IH by fastforce
  moreover have "onSeats blocked xs ((Screen_Seats s)(x \<mapsto> blocked seat))
                   = onSeats blocked (x # xs) (Screen_Seats s)"
    using seat by (rule onSeats_Cons_Some) (rule blocked_idem)
  ultimately show ?case by simp
qed

lemma onSeats_onSeats:
  "onSeats g seatIDs (onSeats f seatIDs m) = onSeats (g \<circ> f) seatIDs m"
  by (auto simp: onSeats_def fun_eq_iff option.map_comp)

lemma onSeats_id:
  assumes "\<And>x seat. x \<in> set seatIDs \<Longrightarrow> m x = Some seat \<Longrightarrow> f seat = seat"
  shows "onSeats f seatIDs m = m"
  using assms by (auto simp: onSeats_def fun_eq_iff map_option_case split: option.splits)

lemma BlockSeats_then_rollback:
  assumes "BlockSeats s seatIDs = (None, s')"
  shows "rollbackSeatBlocking s' seatIDs = s"
proof -
  from assms have chk: "BlockSeats_check s seatIDs = None"
    by (auto simp: BlockSeats_def split: option.splits)
  with assms have s': "s' = s\<lparr>Screen_Seats := onSeats blocked seatIDs (Screen_Seats s)\<rparr>"
    by (simp add: BlockSeats_def BlockSeats_block_success)
  have "onSeats ((\<lambda>seat. snd (Unblock seat)) \<circ> blocked) seatIDs (Screen_Seats s) = Screen_Seats s"
  proof (rule onSeats_id)
    fix x seat assume "x \<in> set seatIDs" and "Screen_Seats s x = Some seat"
    with chk have "Seat_Status seat = SeatStatusAvailable"
      by (auto simp: BlockSeats_check_None failsCheck_def IsAvailable_def)
    then show "((\<lambda>seat. snd (Unblock seat)) \<circ> blocked) seat = seat"
      by (simp add: Unblock_def blocked_def)
  qed
  then show ?thesis
    by (simp add: s' rollbackSeatBlocking_onSeats onSeats_onSeats)
qed

lemma BlockSeats_success_check:
  "fst (BlockSeats s seatIDs) = None \<Longrightarrow> BlockSeats_check s seatIDs = None"
  by (auto simp: BlockSeats_def split: option.splits)

text \<open>
  A request without repeated identifiers that passes the first loop is blocked whole, so
  a failing call on such a request leaves the screen as it was; and a call that succeeds
  was made on a request without repeated identifiers.
\<close>

lemma failsCheck_upd_other:
  "y \<noteq> x \<Longrightarrow> failsCheck (s\<lparr>Screen_Seats := (Screen_Seats s)(x \<mapsto> v)\<rparr>) y = failsCheck s y"
  by (simp add: failsCheck_def)

lemma BlockSeats_block_distinct:
  "distinct seatIDs \<Longrightarrow> \<forall>x \<in> set seatIDs. \<not> failsCheck s x \<Longrightarrow>
   fst (BlockSeats_block allIDs seatIDs s) = None"
proof (induction seatIDs arbitrary: s)
  case Nil
  show ?case by simp
next
  case (Cons x xs)
  from Cons.prems obtain seat where seat: "Screen_Seats s x = Some seat"
    and av: "Seat_Status seat = SeatStatusAvailable"
    by (auto simp: failsCheck_def IsAvailable_def split: option.splits)
  let ?s1 = "s\<lparr>Screen_Seats := (Screen_Seats s)(x \<mapsto> blocked seat)\<rparr>"
  have "\<forall>y \<in> set xs. \<not> failsCheck ?s1 y"
  proof
    fix y assume y: "y \<in> set xs"
    with Cons.prems have "y \<noteq> x" by auto
    then have "failsCheck ?s1 y = failsCheck s y" by (rule failsCheck_upd_other)
    with y Cons.prems show "\<not> failsCheck ?s1 y" by simp
  qed
  moreover have "distinct xs" using Cons.prems by simp
  ultimately have "fst (BlockSeats_block allIDs xs ?s1) = None"
    by (rule Cons.IH [rotated])
  with seat av show ?case
    by (simp add: Block_def blocked_def)
qed

lemma BlockSeats_distinct_all_or_nothing:
  assumes "distinct seatIDs" and "fst (BlockSeats s seatIDs) \<noteq> None"
  shows "snd (BlockSeats s seatIDs) = s"
proof (cases "BlockSeats_check s seatIDs")
  case None
  then have "fst (BlockSeats_block seatIDs seatIDs s) = None"
    using assms(1) by (simp add: BlockSeats_block_distinct BlockSeats_check_None)
  with None assms(2) show ?thesis by (simp add: BlockSeats_def)
next
  case (Some err)
  then show ?thesis by (simp add: BlockSeats_def)
qed

lemma BlockSeats_block_unavailable:
  "x \<in> set seatIDs \<Longrightarrow> Screen_Seats s x = Some seat \<Longrightarrow>
   Seat_Status seat \<noteq> SeatStatusAvailable \<Longrightarrow>
   fst (BlockSeats_block allIDs seatIDs s) \<noteq> None"
proof (induction seatIDs arbitrary: s)
  case Nil
  then show ?case by simp
next
  case (Cons y ys)
  show ?case
  proof (cases "y = x")
    case True
    with Cons.prems show ?thesis
      by (simp add: Block_def split: prod.splits option.splits)
  next
    case False
    with Cons.prems have x: "x \<in> set ys" by simp
    show ?thesis
    proof (cases "Screen_Seats s y")
      case None
      then show ?thesis by simp
    next
      case (Some seat')
      show ?thesis
      proof (cases "Seat_Status seat' = SeatStatusAvailable")
        case True
        have "fst (BlockSeats_block allIDs ys
                (s\<lparr>Screen_Seats := (Screen_Seats s)(y \<mapsto> blocked seat')\<rparr>)) \<noteq> None"
          using x Cons.prems(2,3) False
          by (intro Cons.IH) simp_all
        with Some True show ?thesis
          by (simp add: Block_def blocked_def)
      next
        case False
        with Some show ?thesis
          by (simp add: Block_def split: prod.splits option.splits)
      qed
    qed
  qed
qed

lemma BlockSeats_block_success_distinct:
  "fst (BlockSeats_block allIDs seatIDs s) = None \<Longrightarrow> distinct seatIDs"
proof (induction seatIDs arbitrary: s)
  case Nil
  show ?case by simp
next
  case (Cons x xs)
  from Cons.prems obtain seat where seat: "Screen_Seats s x = Some seat"
    by (cases "Screen_Seats s x") auto
  from Cons.prems seat have av: "Seat_Status seat = SeatStatusAvailable"
    by (auto simp: Block_def split: if_splits prod.splits option.splits)
  let ?s1 = "s\<lparr>Screen_Seats := (Screen_Seats s)(x \<mapsto> blocked seat)\<rparr>"
  from Cons.prems seat av have ok: "fst (BlockSeats_block allIDs xs ?s1) = None"
    by (simp add: Block_def blocked_def)
  have "x \<notin> set xs"
  proof
    assume "x \<in> set xs"
    then have "fst (BlockSeats_block allIDs xs ?s1) \<noteq> None"
      by (rule BlockSeats_block_unavailable [where seat = "blocked seat"])
         (simp_all add: blocked_def)
    with ok show False by simp
  qed
  moreover from ok have "distinct xs" by (rule Cons.IH)
  ultimately show ?case by simp
qed

lemma BlockSeats_success_distinct: "fst (BlockSeats s seatIDs) = None \<Longrightarrow> distinct seatIDs"
  by (auto simp: BlockSeats_def split: option.splits dest: BlockSeats_block_success_distinct)

text \<open>
  C1, at the input where the code leaves the claim: the request A1, A2, A1 passes the
  first loop, the third \<open>Block\<close> fails, the rollback stops at index 0 (the failing
  identifier itself), and the call returns \<open>ErrSeatNotAvailable\<close> with A1 and A2, both
  available before, left blocked.
\<close>

theorem BlockSeats_duplicate_leaves_seats_blocked:
  "fst (BlockSeats screen1 [''A1'', ''A2'', ''A1'']) = Some ErrSeatNotAvailable
   \<and> seatStatus screen1 ''A1'' = Some SeatStatusAvailable
   \<and> seatStatus screen1 ''A2'' = Some SeatStatusAvailable
   \<and> seatStatus (snd (BlockSeats screen1 [''A1'', ''A2'', ''A1''])) ''A1'' = Some SeatStatusBlocked
   \<and> seatStatus (snd (BlockSeats screen1 [''A1'', ''A2'', ''A1''])) ''A2'' = Some SeatStatusBlocked"
  by (simp add: BlockSeats_def screen1_seats seatStatus_def IsAvailable_def Block_def Unblock_def
        seatA1_def seatA2_def NewSeat_def)

section \<open>CreateBooking\<close>

lemma CreateBooking_total_prices:
  "BlockSeats_check s seatIDs = None \<Longrightarrow>
   \<exists>prices. seatPrices s seatIDs = Some prices
     \<and> CreateBooking_total s seatIDs acc = Inr (foldl (+) acc prices)"
proof (induction seatIDs arbitrary: acc)
  case Nil
  show ?case by simp
next
  case (Cons x xs)
  from Cons.prems obtain seat where seat: "Screen_Seats s x = Some seat" "IsAvailable seat"
    and rest: "BlockSeats_check s xs = None"
    by (auto split: option.splits if_splits)
  from Cons.IH [OF rest, of "acc + GetPrice seat"] obtain prices where
    "seatPrices s xs = Some prices"
    "CreateBooking_total s xs (acc + GetPrice seat) = Inr (foldl (+) (acc + GetPrice seat) prices)"
    by blast
  with seat show ?case
    by (simp add: GetSeat_def GetPrice_def)
qed

lemma CreateBooking_total_check:
  "CreateBooking_total s seatIDs acc = Inr amount \<Longrightarrow> BlockSeats_check s seatIDs = None"
  by (induction seatIDs arbitrary: acc) (auto simp: GetSeat_def split: option.splits if_splits)

lemma BlockSeats_success_total:
  assumes "fst (BlockSeats s seatIDs) = None"
  shows "\<exists>amount. CreateBooking_total s seatIDs acc = Inr amount"
proof -
  from assms have "BlockSeats_check s seatIDs = None"
    by (rule BlockSeats_success_check)
  from CreateBooking_total_prices [OF this, of acc] show ?thesis
    by blast
qed

lemma bookingOp_TotalAmount:
  "Booking_TotalAmount (snd (bookingOp op b)) = Booking_TotalAmount b"
  by (cases op) (simp_all add: Confirm_def Cancel_def Expire_def)

lemma bookingOps_TotalAmount:
  "Booking_TotalAmount (bookingOps ops b) = Booking_TotalAmount b"
  by (induction ops arbitrary: b) (simp_all add: bookingOp_TotalAmount)

lemma NewBooking_fields:
  "NewBooking now newID userID showID seatIDs amount = Inr booking \<Longrightarrow>
   Booking_TotalAmount booking = amount \<and> Booking_SeatIDs booking = seatIDs
   \<and> Booking_Status booking = BookingStatusPending"
  by (auto simp: NewBooking_def split: if_splits)

lemma foldl_plus_sum_list: "foldl (+) a xs = a + sum_list (xs :: ('a::monoid_add) list)"
  by (induction xs arbitrary: a) (simp_all add: add.assoc)

lemma spec_priceSum_sum_list:
  "spec_priceSum s seatIDs = map_option sum_list (seatPrices s seatIDs)"
  for s :: "('p::monoid_add) Screen"
  by (cases "seatPrices s seatIDs") (simp_all add: spec_priceSum_def foldl_plus_sum_list)

text \<open>
  C6, price conservation. When \<open>CreateBooking\<close> returns a booking, the show and its
  screen were found, the booking holds the requested seat identifiers, and its
  \<open>TotalAmount\<close> is the sum of the prices that the screen, as it stood when the seats
  were held, gives for those identifiers. No run of \<open>Confirm\<close>, \<open>Cancel\<close> and
  \<open>Expire\<close> calls on the booking changes \<open>TotalAmount\<close>.
\<close>

theorem CreateBooking_price_conservation:
  assumes "CreateBooking repo now now2 newID userID showID seatIDs bs = (Inr booking, bs')"
  shows "(\<exists>sh screen. showRepo bs showID = Some sh
            \<and> screenRepo bs (Show_ScreenID sh) = Some screen
            \<and> spec_priceSum screen seatIDs = Some (Booking_TotalAmount booking))
         \<and> Booking_SeatIDs booking = seatIDs
         \<and> Booking_TotalAmount (bookingOps ops booking) = Booking_TotalAmount booking"
proof -
  from assms obtain sh where sh: "showRepo bs showID = Some sh"
    by (cases "showRepo bs showID") (auto simp: CreateBooking_def MemoryShowRepository_GetByID_def)
  from assms sh obtain screen where screen: "screenRepo bs (Show_ScreenID sh) = Some screen"
    by (cases "screenRepo bs (Show_ScreenID sh)")
       (auto simp: CreateBooking_def MemoryShowRepository_GetByID_def
          MemoryScreenRepository_GetByID_def split: if_splits)
  from assms sh screen obtain amount where
    tot: "CreateBooking_total screen seatIDs 0 = Inr amount"
    by (cases "CreateBooking_total screen seatIDs 0")
       (auto simp: CreateBooking_def MemoryShowRepository_GetByID_def
          MemoryScreenRepository_GetByID_def split: if_splits)
  from assms sh screen tot have "NewBooking now2 newID userID showID seatIDs amount = Inr booking"
    by (auto simp: CreateBooking_def MemoryShowRepository_GetByID_def
          MemoryScreenRepository_GetByID_def Let_def
          split: if_splits prod.splits option.splits sum.splits)
  then have amt: "Booking_TotalAmount booking = amount" "Booking_SeatIDs booking = seatIDs"
    by (simp_all add: NewBooking_fields)
  from tot have "BlockSeats_check screen seatIDs = None"
    by (rule CreateBooking_total_check)
  from CreateBooking_total_prices [OF this, of 0] tot
  have "spec_priceSum screen seatIDs = Some amount"
    by (auto simp: spec_priceSum_def)
  with sh screen amt show ?thesis
    by (simp add: bookingOps_TotalAmount)
qed

theorem CreateBooking_price_conservation_witness:
  "fst (CreateBooking MemoryBookingRepository 0 0 ''B1'' ''U1'' ''SH1'' [''A1'', ''A2''] service1)
     = Inr booking1
   \<and> spec_priceSum screen1 [''A1'', ''A2''] = Some 250
   \<and> Booking_SeatIDs booking1 = [''A1'', ''A2'']
   \<and> Booking_TotalAmount booking1 = 250
   \<and> Booking_TotalAmount
        (bookingOps [OpExpire 7, OpCancel 8, OpConfirm 9 9 ''PAY1''] booking1) = 250"
proof -
  have blk: "BlockSeats screen1 [''A1'', ''A2'']
               = (None, screen1\<lparr>Screen_Seats := [''A1'' \<mapsto> blocked seatA1, ''A2'' \<mapsto> blocked seatA2]\<rparr>)"
    by (simp add: BlockSeats_def screen1_seats IsAvailable_def Block_def seatA1_def seatA2_def
          NewSeat_def blocked_def fun_upd_twist)
  have tot: "CreateBooking_total screen1 [''A1'', ''A2''] 0 = Inr 250"
    by (simp add: GetSeat_def screen1_seats IsAvailable_def GetPrice_def seatA1_def seatA2_def
          NewSeat_def)
  have nb: "NewBooking 0 ''B1'' ''U1'' ''SH1'' [''A1'', ''A2''] (250::int) = Inr booking1"
    by (simp add: NewBooking_def booking1_def)
  have r: "fst (CreateBooking MemoryBookingRepository 0 0 ''B1'' ''U1'' ''SH1'' [''A1'', ''A2''] service1)
             = Inr booking1"
    by (simp add: CreateBooking_def MemoryShowRepository_GetByID_def
          MemoryScreenRepository_GetByID_def service1_def show1_def CanBeBooked_def
          tot blk nb MemoryBookingRepository_def Let_def del: CreateBooking_total.simps)
  then have "CreateBooking MemoryBookingRepository 0 0 ''B1'' ''U1'' ''SH1'' [''A1'', ''A2''] service1
      = (Inr booking1,
         snd (CreateBooking MemoryBookingRepository 0 0 ''B1'' ''U1'' ''SH1'' [''A1'', ''A2''] service1))"
    by (simp add: prod_eq_iff)
  from CreateBooking_price_conservation [OF this,
         of "[OpExpire 7, OpCancel 8, OpConfirm 9 9 ''PAY1'']"] r
  show ?thesis
    by (auto simp: service1_def show1_def booking1_def)
qed

text \<open>
  C4, compensation. Take a \<open>CreateBooking\<close> call that found the show bookable and its
  screen, priced the seats and blocked them, and then failed to create the booking
  record with \<open>err\<close>: either \<open>NewBooking\<close> refused the data, or the booking store's
  \<open>Create\<close> returned \<open>err\<close>. The call returns \<open>err\<close>; every requested seat,
  blocked by \<open>BlockSeats\<close>, is available in the service when the call returns; and the
  screen repository as a whole is as before the call. (The pricing loop makes the checks of the first
  loop of \<open>BlockSeats\<close>, so it has passed whenever the blocking has:
  \<open>BlockSeats_success_total\<close>.)
\<close>

theorem CreateBooking_compensates:
  assumes sh: "showRepo bs showID = Some sh"
    and bookable: "CanBeBooked now sh"
    and scr: "screenRepo bs (Show_ScreenID sh) = Some screen"
    and tot: "CreateBooking_total screen seatIDs 0 = Inr amount"
    and blk: "fst (BlockSeats screen seatIDs) = None"
    and fails: "NewBooking now2 newID userID showID seatIDs amount = Inl err
                \<or> (\<exists>booking r'. NewBooking now2 newID userID showID seatIDs amount = Inr booking
                      \<and> BookingRepository_Create repo booking (bookingRepo bs) = (Some err, r'))"
  shows "fst (CreateBooking repo now now2 newID userID showID seatIDs bs) = Inl err
         \<and> (\<forall>seatID \<in> set seatIDs.
               seatStatus (snd (BlockSeats screen seatIDs)) seatID = Some SeatStatusBlocked)
         \<and> (\<forall>seatID \<in> set seatIDs.
               serviceSeatStatus (snd (CreateBooking repo now now2 newID userID showID seatIDs bs))
                 (Show_ScreenID sh) seatID = Some SeatStatusAvailable)
         \<and> screenRepo (snd (CreateBooking repo now now2 newID userID showID seatIDs bs)) = screenRepo bs"
proof -
  obtain screen' where b: "BlockSeats screen seatIDs = (None, screen')"
    using blk by (cases "BlockSeats screen seatIDs") simp
  have rb: "rollbackSeatBlocking screen' seatIDs = screen"
    using b by (rule BlockSeats_then_rollback)
  have same: "(screenRepo bs)(Show_ScreenID sh \<mapsto> screen) = screenRepo bs"
    using scr by (rule map_upd_triv)
  have chk: "BlockSeats_check screen seatIDs = None"
    using blk by (rule BlockSeats_success_check)
  have avail: "\<forall>seatID \<in> set seatIDs. seatStatus screen seatID = Some SeatStatusAvailable"
    using chk by (auto simp: BlockSeats_check_None failsCheck_def seatStatus_def IsAvailable_def
                     split: option.splits)
  have s': "screen' = screen\<lparr>Screen_Seats := onSeats blocked seatIDs (Screen_Seats screen)\<rparr>"
    using b chk by (simp add: BlockSeats_def BlockSeats_block_success)
  have held: "\<forall>seatID \<in> set seatIDs. seatStatus screen' seatID = Some SeatStatusBlocked"
    using avail by (auto simp: s' seatStatus_def onSeats_def blocked_def)
  from fails have res: "fst (CreateBooking repo now now2 newID userID showID seatIDs bs) = Inl err
      \<and> screenRepo (snd (CreateBooking repo now now2 newID userID showID seatIDs bs)) = screenRepo bs"
  proof
    assume "NewBooking now2 newID userID showID seatIDs amount = Inl err"
    then show ?thesis
      using sh bookable scr tot b rb same
      by (simp add: CreateBooking_def MemoryShowRepository_GetByID_def
            MemoryScreenRepository_GetByID_def writeScreen_def)
  next
    assume "\<exists>booking r'. NewBooking now2 newID userID showID seatIDs amount = Inr booking
              \<and> BookingRepository_Create repo booking (bookingRepo bs) = (Some err, r')"
    then obtain booking r' where
      "NewBooking now2 newID userID showID seatIDs amount = Inr booking"
      "BookingRepository_Create repo booking (bookingRepo bs) = (Some err, r')"
      by blast
    then show ?thesis
      using sh bookable scr tot b rb same
      by (simp add: CreateBooking_def MemoryShowRepository_GetByID_def
            MemoryScreenRepository_GetByID_def writeScreen_def)
  qed
  with avail held b scr show ?thesis by (simp add: serviceSeatStatus_def)
qed

theorem CreateBooking_compensates_witness:
  "fst (BlockSeats screen1 [''A1'', ''A2'']) = None
   \<and> seatStatus (snd (BlockSeats screen1 [''A1'', ''A2''])) ''A1'' = Some SeatStatusBlocked
   \<and> seatStatus (snd (BlockSeats screen1 [''A1'', ''A2''])) ''A2'' = Some SeatStatusBlocked
   \<and> fst (CreateBooking FailingBookingRepository 0 0 ''B1'' ''U1'' ''SH1'' [''A1'', ''A2''] service1)
       = Inl ErrServiceUnavailable
   \<and> serviceSeatStatus
         (snd (CreateBooking FailingBookingRepository 0 0 ''B1'' ''U1'' ''SH1'' [''A1'', ''A2''] service1))
         ''S1'' ''A1'' = Some SeatStatusAvailable
   \<and> serviceSeatStatus
         (snd (CreateBooking FailingBookingRepository 0 0 ''B1'' ''U1'' ''SH1'' [''A1'', ''A2''] service1))
         ''S1'' ''A2'' = Some SeatStatusAvailable
   \<and> fst (CreateBooking MemoryBookingRepository 0 0 ''B1'' [] ''SH1'' [''A1'', ''A2''] service1)
       = Inl ErrInvalidBookingData
   \<and> serviceSeatStatus
         (snd (CreateBooking MemoryBookingRepository 0 0 ''B1'' [] ''SH1'' [''A1'', ''A2''] service1))
         ''S1'' ''A1'' = Some SeatStatusAvailable
   \<and> serviceSeatStatus
         (snd (CreateBooking MemoryBookingRepository 0 0 ''B1'' [] ''SH1'' [''A1'', ''A2''] service1))
         ''S1'' ''A2'' = Some SeatStatusAvailable"
proof -
  have sh: "showRepo service1 ''SH1'' = Some show1"
    by (simp add: service1_def)
  have bookable: "CanBeBooked 0 show1"
    by (simp add: CanBeBooked_def show1_def)
  have scr: "screenRepo service1 (Show_ScreenID show1) = Some screen1"
    by (simp add: service1_def show1_def)
  have tot: "CreateBooking_total screen1 [''A1'', ''A2''] 0 = Inr 250"
    by (simp add: GetSeat_def screen1_seats IsAvailable_def GetPrice_def seatA1_def seatA2_def
          NewSeat_def)
  have blk: "fst (BlockSeats screen1 [''A1'', ''A2'']) = None"
    by (simp add: BlockSeats_def screen1_seats IsAvailable_def Block_def seatA1_def seatA2_def
          NewSeat_def)
  have persist: "NewBooking 0 ''B1'' ''U1'' ''SH1'' [''A1'', ''A2''] (250::int) = Inl ErrServiceUnavailable
      \<or> (\<exists>booking r'. NewBooking 0 ''B1'' ''U1'' ''SH1'' [''A1'', ''A2''] (250::int) = Inr booking
            \<and> BookingRepository_Create FailingBookingRepository booking (bookingRepo service1)
                = (Some ErrServiceUnavailable, r'))"
    by (simp add: NewBooking_def FailingBookingRepository_def)
  have construct: "NewBooking 0 ''B1'' [] ''SH1'' [''A1'', ''A2''] (250::int) = Inl ErrInvalidBookingData
      \<or> (\<exists>booking r'. NewBooking 0 ''B1'' [] ''SH1'' [''A1'', ''A2''] (250::int) = Inr booking
            \<and> BookingRepository_Create MemoryBookingRepository booking (bookingRepo service1)
                = (Some ErrInvalidBookingData, r'))"
    by (simp add: NewBooking_def)
  from CreateBooking_compensates [OF sh bookable scr tot blk persist]
       CreateBooking_compensates [OF sh bookable scr tot blk construct] blk scr
  show ?thesis
    by (simp add: show1_def)
qed

section \<open>ConfirmBooking\<close>

lemma ConfirmBooking_book_status:
  "seatStatus (ConfirmBooking_book screen seatIDs) seatID
     = (if seatID \<in> set seatIDs \<and> seatStatus screen seatID = Some SeatStatusBlocked
        then Some SeatStatusBooked else seatStatus screen seatID)"
  by (cases "Screen_Seats screen seatID")
     (auto simp: ConfirmBooking_book_onSeats seatStatus_def onSeats_def Book_def)

lemma Confirm_success_status:
  "Confirm now stamp paymentID booking0 = (None, booking) \<Longrightarrow>
   Booking_Status booking = BookingStatusConfirmed"
  by (auto simp: Confirm_def split: if_splits)

lemma MemoryScreenRepository_Update_key:
  "m key = Some screen' \<Longrightarrow> snd (MemoryScreenRepository_Update screen' m) key = Some screen'"
  by (simp add: MemoryScreenRepository_Update_def)

text \<open>
  With the in-memory booking store, a booking fetched under its own identifier and then
  confirmed is always accepted by \<open>Update\<close>.
\<close>

lemma MemoryBookingRepository_Update_after_GetByID:
  assumes "BookingRepository_GetByID MemoryBookingRepository bookingID bookings = Inr booking0"
    and "Booking_ID booking0 = bookingID"
    and "Confirm now stamp paymentID booking0 = (None, booking)"
  shows "fst (BookingRepository_Update MemoryBookingRepository booking bookings) = None"
  using assms
  by (auto simp: MemoryBookingRepository_def Confirm_def split: option.splits if_splits)

text \<open>
  C8, as amended. Take a \<open>ConfirmBooking\<close> call in which the booking is found, its
  \<open>Confirm\<close> succeeds, the booking store's \<open>Update\<close> succeeds, and the show and the
  screen are found. Whatever \<open>Book\<close> answers for the seats, the call returns no error
  and the booking is \<open>Confirmed\<close>. Each seat of the booking that was blocked is booked;
  every other seat, a seat of the booking whose \<open>Book\<close> failed or that the screen lacks
  included, keeps the status it had.
\<close>

theorem ConfirmBooking_absorbs_seat_failures:
  assumes get: "BookingRepository_GetByID repo bookingID (bookingRepo bs) = Inr booking0"
    and conf: "Confirm now stamp paymentID booking0 = (None, booking)"
    and upd: "fst (BookingRepository_Update repo booking (bookingRepo bs)) = None"
    and sh: "showRepo bs (Booking_ShowID booking) = Some sh"
    and scr: "screenRepo bs (Show_ScreenID sh) = Some screen"
  shows "fst (ConfirmBooking repo now stamp bookingID paymentID bs) = None
         \<and> fst (snd (ConfirmBooking repo now stamp bookingID paymentID bs)) = Some booking
         \<and> Booking_Status booking = BookingStatusConfirmed
         \<and> (\<forall>seatID.
               serviceSeatStatus (snd (snd (ConfirmBooking repo now stamp bookingID paymentID bs)))
                 (Show_ScreenID sh) seatID
               = (if seatID \<in> set (Booking_SeatIDs booking)
                     \<and> seatStatus screen seatID = Some SeatStatusBlocked
                  then Some SeatStatusBooked else seatStatus screen seatID))"
proof -
  obtain r' where u: "BookingRepository_Update repo booking (bookingRepo bs) = (None, r')"
    using upd by (cases "BookingRepository_Update repo booking (bookingRepo bs)") simp
  let ?screen' = "ConfirmBooking_book screen (Booking_SeatIDs booking)"
  have key: "snd (MemoryScreenRepository_Update ?screen'
                    ((screenRepo bs)(Show_ScreenID sh \<mapsto> ?screen'))) (Show_ScreenID sh)
               = Some ?screen'"
    by (rule MemoryScreenRepository_Update_key) simp
  have "\<exists>bs'. ConfirmBooking repo now stamp bookingID paymentID bs = (None, Some booking, bs')
          \<and> screenRepo bs' (Show_ScreenID sh) = Some ?screen'"
    using get conf u sh scr key
    by (simp add: ConfirmBooking_def MemoryShowRepository_GetByID_def
          MemoryScreenRepository_GetByID_def writeScreen_def Let_def)
  then obtain bs' where
    res: "ConfirmBooking repo now stamp bookingID paymentID bs = (None, Some booking, bs')"
    and scr': "screenRepo bs' (Show_ScreenID sh) = Some ?screen'"
    by blast
  have "\<forall>seatID. serviceSeatStatus bs' (Show_ScreenID sh) seatID
          = (if seatID \<in> set (Booking_SeatIDs booking)
                \<and> seatStatus screen seatID = Some SeatStatusBlocked
             then Some SeatStatusBooked else seatStatus screen seatID)"
    using scr' by (simp add: serviceSeatStatus_def ConfirmBooking_book_status)
  with res Confirm_success_status [OF conf] show ?thesis
    by simp
qed

theorem ConfirmBooking_absorbs_seat_failures_witness:
  "fst (Book seatA2) = Some ErrSeatNotBlocked
   \<and> seatStatus screen2 ''A1'' = Some SeatStatusBlocked
   \<and> seatStatus screen2 ''A2'' = Some SeatStatusAvailable
   \<and> fst (ConfirmBooking MemoryBookingRepository 1 2 ''B1'' ''PAY1'' service2) = None
   \<and> fst (snd (ConfirmBooking MemoryBookingRepository 1 2 ''B1'' ''PAY1'' service2))
       = Some (booking1\<lparr>Booking_Status := BookingStatusConfirmed,
                        Booking_PaymentID := ''PAY1'', Booking_UpdatedAt := 2\<rparr>)
   \<and> serviceSeatStatus (snd (snd (ConfirmBooking MemoryBookingRepository 1 2 ''B1'' ''PAY1'' service2)))
         ''S1'' ''A1'' = Some SeatStatusBooked
   \<and> serviceSeatStatus (snd (snd (ConfirmBooking MemoryBookingRepository 1 2 ''B1'' ''PAY1'' service2)))
         ''S1'' ''A2'' = Some SeatStatusAvailable"
proof -
  let ?b = "booking1\<lparr>Booking_Status := BookingStatusConfirmed,
                      Booking_PaymentID := ''PAY1'', Booking_UpdatedAt := 2\<rparr>"
  have get: "BookingRepository_GetByID MemoryBookingRepository ''B1'' (bookingRepo service2)
               = Inr booking1"
    by (simp add: MemoryBookingRepository_def service2_def)
  have conf: "Confirm 1 2 ''PAY1'' booking1 = (None, ?b)"
    by (simp add: Confirm_def booking1_def BookingTimeout_def)
  have upd: "fst (BookingRepository_Update MemoryBookingRepository ?b (bookingRepo service2)) = None"
    by (simp add: MemoryBookingRepository_def service2_def booking1_def)
  have sh: "showRepo service2 (Booking_ShowID ?b) = Some show1"
    by (simp add: service2_def service1_def booking1_def)
  have scr: "screenRepo service2 (Show_ScreenID show1) = Some screen2"
    by (simp add: service2_def show1_def)
  have st: "seatStatus screen2 ''A1'' = Some SeatStatusBlocked"
           "seatStatus screen2 ''A2'' = Some SeatStatusAvailable"
    by (simp_all add: seatStatus_def screen2_seats seatA2_def NewSeat_def)
  have ids: "Booking_SeatIDs ?b = [''A1'', ''A2'']" "Show_ScreenID show1 = ''S1''"
    by (simp_all add: booking1_def show1_def)
  have bk: "fst (Book seatA2) = Some ErrSeatNotBlocked"
    by (simp add: Book_def seatA2_def NewSeat_def)
  from ConfirmBooking_absorbs_seat_failures [OF get conf upd sh scr] st ids bk
  show ?thesis
    by simp
qed

text \<open>
  C8 as stated fails when the booking store refuses the update: the booking is found,
  \<open>Confirm\<close> succeeds, the show and the screen are found, and \<open>ConfirmBooking\<close> returns
  the store's error.
\<close>

theorem ConfirmBooking_update_failure_counterexample:
  "BookingRepository_GetByID FailingBookingRepository ''B1'' (bookingRepo service2) = Inr booking1
   \<and> fst (Confirm 1 2 ''PAY1'' booking1) = None
   \<and> showRepo service2 (Booking_ShowID (snd (Confirm 1 2 ''PAY1'' booking1))) = Some show1
   \<and> screenRepo service2 (Show_ScreenID show1) = Some screen2
   \<and> fst (ConfirmBooking FailingBookingRepository 1 2 ''B1'' ''PAY1'' service2)
       = Some ErrServiceUnavailable"
  by (simp add: ConfirmBooking_def FailingBookingRepository_def MemoryBookingRepository_def
        service2_def service1_def Confirm_def booking1_def BookingTimeout_def show1_def)

end
